theory Spec2Isabelle
  imports Main
begin

section \<open>Python strings and integers\<close>

text \<open>
  Strings are ASCII character lists. \<open>lower\<close>, \<open>strip\<close>, \<open>str\<close> and \<open>int\<close> are the
  Python built-ins that \<open>nas.py\<close> applies to the operator's reply, to captured command
  output and to the checkpoint file. \<open>py_int\<close> follows the grammar of \<open>int(s)\<close> for a
  decimal ASCII literal: optional surrounding whitespace, an optional sign, digits, single
  underscores only between digits. (The interpreter's configurable limit on the number of
  digits is not part of the model.)
\<close>

definition lower_char :: "char \<Rightarrow> char" where
  "lower_char c =
     (case map_of (zip ''ABCDEFGHIJKLMNOPQRSTUVWXYZ'' ''abcdefghijklmnopqrstuvwxyz'') c of
        Some d \<Rightarrow> d
      | None \<Rightarrow> c)"

definition lower :: "string \<Rightarrow> string" where
  "lower s = map lower_char s"

definition is_space :: "char \<Rightarrow> bool" where
  "is_space c = (c \<in> set [CHR 0x09, CHR 0x0A, CHR 0x0B, CHR 0x0C, CHR 0x0D,
                            CHR 0x1C, CHR 0x1D, CHR 0x1E, CHR 0x1F, CHR '' ''])"

definition strip :: "string \<Rightarrow> string" where
  "strip s = rev (dropWhile is_space (rev (dropWhile is_space s)))"

definition digit_val :: "char \<Rightarrow> nat option" where
  "digit_val c = map_of (zip ''0123456789'' [0, 1, 2, 3, 4, 5, 6, 7, 8, 9]) c"

fun parse_digits :: "nat \<Rightarrow> bool \<Rightarrow> string \<Rightarrow> nat option" where
  "parse_digits acc after_digit [] = (if after_digit then Some acc else None)"
| "parse_digits acc after_digit (c # cs) =
     (case digit_val c of
        Some d \<Rightarrow> parse_digits (10 * acc + d) True cs
      | None \<Rightarrow> if c = CHR ''_'' \<and> after_digit then parse_digits acc False cs else None)"

definition py_int :: "string \<Rightarrow> int option" where
  "py_int s =
     (case strip s of
        [] \<Rightarrow> None
      | c # cs \<Rightarrow>
          if c = CHR ''-'' then map_option (\<lambda>n. - int n) (parse_digits 0 False cs)
          else if c = CHR ''+'' then map_option int (parse_digits 0 False cs)
          else map_option int (parse_digits 0 False (c # cs)))"

fun str_nat :: "nat \<Rightarrow> string" where
  "str_nat n =
     (if n < 10 then [''0123456789'' ! n]
      else str_nat (n div 10) @ [''0123456789'' ! (n mod 10)])"

declare str_nat.simps [simp del]

definition str_int :: "int \<Rightarrow> string" where
  "str_int i = (if i < 0 then CHR ''-'' # str_nat (nat (- i)) else str_nat (nat i))"

text \<open>An f-string prints an absent value as \<open>None\<close>.\<close>

definition fmt :: "string option \<Rightarrow> string" where
  "fmt v = (case v of None \<Rightarrow> ''None'' | Some s \<Rightarrow> s)"


section \<open>Configuration, host and observable behaviour\<close>

text \<open>The user settings at the top of \<open>nas.py\<close> that the provisioning code reads.\<close>

record config =
  RAID_LEVEL :: int
  RAID_DEVICES :: "string list"
  RAID_DEVICE_NAME :: string
  FILESYSTEM_TYPE :: string
  MOUNT_POINT_BASE :: string
  FLASK_PORT :: nat

definition shipped_config :: config where
  "shipped_config =
     \<lparr>RAID_LEVEL = 10,
      RAID_DEVICES = [''/dev/sda'', ''/dev/sdb'', ''/dev/sdc'', ''/dev/sdd''],
      RAID_DEVICE_NAME = ''/dev/md0'',
      FILESYSTEM_TYPE = ''ext4'',
      MOUNT_POINT_BASE = ''storage'',
      FLASK_PORT = 5000\<rparr>"

definition FLAG_FILE :: string where
  "FLAG_FILE = ''/var/lib/mysetup_step''"

definition ALLOWED_RAID_LEVELS :: "int list" where
  "ALLOWED_RAID_LEVELS = [0, 1, 5, 10]"

text \<open>
  What a launched subprocess does: it exits with a return code and its captured output,
  it exceeds the timeout (with the output captured so far), or it cannot be started.
\<close>

datatype outcome =
    Exited int string string
  | TimedOut string string
  | SpawnFailed

record completed =
  returncode :: int
  stdout :: string
  stderr :: string

datatype pyexc =
    TimeoutExpired string string
  | CalledProcessError int string string
  | OSError
  | EOFError
  | ValueError

text \<open>A process ends early through \<open>sys.exit(n)\<close> or through an exception nobody catches.\<close>

datatype halt = Exit int | Raised pyexc

text \<open>
  The checkpoint file \<open>FLAG_FILE\<close>. \<open>open(FLAG_FILE, "w")\<close> truncates the file before
  anything is written, so a write can fail in two ways: the file cannot be opened (it stays
  as it was) or the write fails after the file was opened (it is left empty).
\<close>

datatype file_state = Absent | Unreadable | Content string

datatype write_mode = WriteOk | OpenFails | WriteFails

record world =
  flag_file :: file_state
  flag_write :: write_mode
  outcomes :: "nat \<Rightarrow> string list \<Rightarrow> outcome"
  launched :: nat
  stdin_line :: "string option"
  path_exists :: "string \<Rightarrow> bool"
  euid :: nat
  env_sudo_user :: "string option"
  env_user :: "string option"
  script_path :: string
  unit_file_writable :: bool

text \<open>
  Terminal output. The diagnostics of \<open>run\<close>, the confirmation dialogue, the validators'
  verdicts, the checkpoint error and the completion reports are recorded; \<open>MsgStage k\<close> is
  the banner that opens stage \<open>k\<close>. Other progress lines are not recorded.
\<close>

datatype message =
    MsgValidatingConfig
  | MsgLevelNotAllowed
  | MsgDeviceCountError
  | MsgConfigValid
  | MsgCheckingDevices
  | MsgDevicesMissing "string list"
  | MsgBlockDevices string
  | MsgNoBlockDeviceList
  | MsgDevicesPresent
  | MsgNeedRoot
  | MsgRunning "string list"
  | MsgTimeout nat
  | MsgCommandError
  | MsgStdout string
  | MsgStderr string
  | MsgWarning
  | MsgCancelled
  | MsgContinuing
  | MsgStepSaveError
  | MsgUuidWarning
  | MsgStage nat
  | MsgAllDone
  | MsgManagement
  | MsgInstallComplete

text \<open>
  What a run does to its surroundings, in order. \<open>Exec\<close> is a command launched through
  \<open>run\<close> or \<open>run_safe\<close>; \<open>Probe\<close> is a query that a helper launches with
  \<open>subprocess.run\<close> directly (\<open>hostname -I\<close>, \<open>blkid\<close>, \<open>lsblk\<close>); \<open>Input\<close> is the prompt
  of \<open>input()\<close> with the line read (\<open>None\<close> at end of file); \<open>Append\<close> is a call of
  \<open>append_to_file\<close>, \<open>WriteFile\<close> an \<open>open(path, "w")\<close>, \<open>SetStep\<close> the checkpoint write.
  The text written to configuration files is not recorded.
\<close>

datatype event =
    Print message
  | Exec "string list"
  | Probe "string list"
  | Input "string option"
  | Append string
  | WriteFile string
  | SetStep int
  | Sleep nat

fun mutating :: "event \<Rightarrow> bool" where
  "mutating (Exec argv) = True"
| "mutating (Append path) = True"
| "mutating (WriteFile path) = True"
| "mutating (SetStep n) = True"
| "mutating e = False"


section \<open>Sequencing\<close>

text \<open>
  A piece of the script maps the host to the events it produced, its result (a value, or
  the way the process ended) and the host afterwards. \<open>bind\<close> is Python's statement
  sequencing: nothing after a \<open>sys.exit\<close> or an uncaught exception runs.
\<close>

type_synonym 'a prog = "world \<Rightarrow> event list \<times> (halt + 'a) \<times> world"

definition events_of :: "event list \<times> (halt + 'a) \<times> world \<Rightarrow> event list" where
  "events_of x = fst x"

definition result_of :: "event list \<times> (halt + 'a) \<times> world \<Rightarrow> halt + 'a" where
  "result_of x = fst (snd x)"

definition world_of :: "event list \<times> (halt + 'a) \<times> world \<Rightarrow> world" where
  "world_of x = snd (snd x)"

definition ret :: "'a \<Rightarrow> 'a prog" where
  "ret a w = ([], Inr a, w)"

definition abort :: "halt \<Rightarrow> 'a prog" where
  "abort h w = ([], Inl h, w)"

definition sys_exit :: "int \<Rightarrow> 'a prog" where
  "sys_exit n = abort (Exit n)"

definition emit :: "event \<Rightarrow> unit prog" where
  "emit e w = ([e], Inr (), w)"

definition print :: "message \<Rightarrow> unit prog" where
  "print m = emit (Print m)"

definition ask :: "(world \<Rightarrow> 'a) \<Rightarrow> 'a prog" where
  "ask f w = ([], Inr (f w), w)"

definition bind :: "'a prog \<Rightarrow> ('a \<Rightarrow> 'b prog) \<Rightarrow> 'b prog" where
  "bind m f w =
     (case m w of
        (t, Inl h, w') \<Rightarrow> (t, Inl h, w')
      | (t, Inr a, w') \<Rightarrow> (case f a w' of (t', r, w'') \<Rightarrow> (t @ t', r, w'')))"

definition void :: "'a prog \<Rightarrow> unit prog" where
  "void m = bind m (\<lambda>a. ret ())"

fun seq :: "unit prog list \<Rightarrow> unit prog" where
  "seq [] = ret ()"
| "seq (m # ms) = bind m (\<lambda>u. seq ms)"


section \<open>CommandRunner\<close>

text \<open>The \<open>n\<close>-th subprocess of the run gets the outcome the host has for it.\<close>

definition spawn :: "string list \<Rightarrow> outcome prog" where
  "spawn argv w = ([], Inr (outcomes w (launched w) argv), w\<lparr>launched := Suc (launched w)\<rparr>)"

text \<open>\<open>subprocess.run(cmd, check=..., text=True, capture_output=True, timeout=...)\<close>.\<close>

definition subprocess_run :: "bool \<Rightarrow> outcome \<Rightarrow> pyexc + completed" where
  "subprocess_run check oc =
     (case oc of
        Exited rc out err \<Rightarrow>
          if check \<and> rc \<noteq> 0 then Inl (CalledProcessError rc out err)
          else Inr \<lparr>returncode = rc, stdout = out, stderr = err\<rparr>
      | TimedOut out err \<Rightarrow> Inl (TimeoutExpired out err)
      | SpawnFailed \<Rightarrow> Inl OSError)"

definition run :: "string list \<Rightarrow> nat \<Rightarrow> completed prog" where
  "run cmd timeout =
     bind (print (MsgRunning cmd)) (\<lambda>u.
     bind (emit (Exec cmd)) (\<lambda>u.
     bind (spawn cmd) (\<lambda>oc.
       case subprocess_run True oc of
         Inr result \<Rightarrow> ret result
       | Inl (TimeoutExpired out err) \<Rightarrow>
           bind (print (MsgTimeout timeout)) (\<lambda>u. sys_exit 1)
       | Inl (CalledProcessError rc out err) \<Rightarrow>
           bind (print MsgCommandError) (\<lambda>u.
           bind (if out \<noteq> [] then print (MsgStdout (strip out)) else ret ()) (\<lambda>u.
           bind (if err \<noteq> [] then print (MsgStderr (strip err)) else ret ()) (\<lambda>u.
           sys_exit 1)))
       | Inl e \<Rightarrow> abort (Raised e))))"

definition run_safe :: "string list \<Rightarrow> nat \<Rightarrow> completed option prog" where
  "run_safe cmd timeout =
     bind (emit (Exec cmd)) (\<lambda>u.
     bind (spawn cmd) (\<lambda>oc.
       case subprocess_run False oc of
         Inr result \<Rightarrow> ret (Some result)
       | Inl (TimeoutExpired out err) \<Rightarrow> ret None
       | Inl e \<Rightarrow> ret None))"


section \<open>Validator\<close>

definition validate_config :: "config \<Rightarrow> unit prog" where
  "validate_config cfg =
     bind (print MsgValidatingConfig) (\<lambda>u.
       if RAID_LEVEL cfg \<notin> set ALLOWED_RAID_LEVELS
       then bind (print MsgLevelNotAllowed) (\<lambda>u. sys_exit 1)
       else
         let num_devices = length (RAID_DEVICES cfg);
             valid =
               (if RAID_LEVEL cfg = 1 \<and> num_devices \<noteq> 2 then False
                else if RAID_LEVEL cfg = 5 \<and> num_devices < 3 then False
                else if RAID_LEVEL cfg = 10 \<and> (num_devices < 4 \<or> num_devices mod 2 \<noteq> 0)
                  then False
                else if RAID_LEVEL cfg = 0 \<and> num_devices < 2 then False
                else True)
         in if \<not> valid then bind (print MsgDeviceCountError) (\<lambda>u. sys_exit 1)
            else print MsgConfigValid)"

definition validate_devices :: "config \<Rightarrow> unit prog" where
  "validate_devices cfg =
     bind (print MsgCheckingDevices) (\<lambda>u.
     bind (ask path_exists) (\<lambda>ex.
       let missing_devices = filter (\<lambda>device. \<not> ex device) (RAID_DEVICES cfg)
       in if missing_devices \<noteq> []
          then
            bind (print (MsgDevicesMissing missing_devices)) (\<lambda>u.
            bind (emit (Probe [''lsblk'', ''-d'', ''-o'', ''NAME,SIZE,TYPE''])) (\<lambda>u.
            bind (spawn [''lsblk'', ''-d'', ''-o'', ''NAME,SIZE,TYPE'']) (\<lambda>oc.
            bind (case subprocess_run True oc of
                    Inr result \<Rightarrow> print (MsgBlockDevices (stdout result))
                  | Inl e \<Rightarrow> print MsgNoBlockDeviceList) (\<lambda>u.
            sys_exit 1))))
          else print MsgDevicesPresent))"

definition check_root :: "unit prog" where
  "check_root =
     bind (ask euid) (\<lambda>uid.
       if uid \<noteq> 0 then bind (print MsgNeedRoot) (\<lambda>u. sys_exit 1) else ret ())"


section \<open>ConfirmationGate\<close>

definition input :: "string prog" where
  "input w =
     ([Input (stdin_line w)],
      (case stdin_line w of None \<Rightarrow> Inl (Raised EOFError) | Some s \<Rightarrow> Inr s),
      w)"

definition confirm_action :: "unit prog" where
  "confirm_action =
     bind (print MsgWarning) (\<lambda>u.
     bind input (\<lambda>line.
       let choice = lower line
       in if choice \<noteq> ''yes'' then bind (print MsgCancelled) (\<lambda>u. sys_exit 0)
          else print MsgContinuing))"


section \<open>StepStore\<close>

text \<open>The body of the \<open>try\<close> block of \<open>get_step\<close>, and \<open>get_step\<close> with its bare \<open>except\<close>.\<close>

definition read_flag :: "file_state \<Rightarrow> pyexc + int" where
  "read_flag f =
     (case f of
        Absent \<Rightarrow> Inr 1
      | Unreadable \<Rightarrow> Inl OSError
      | Content s \<Rightarrow> (case py_int (strip s) of None \<Rightarrow> Inl ValueError | Some n \<Rightarrow> Inr n))"

definition get_step :: "world \<Rightarrow> int" where
  "get_step w = (case read_flag (flag_file w) of Inl e \<Rightarrow> 1 | Inr n \<Rightarrow> n)"

definition set_step :: "int \<Rightarrow> unit prog" where
  "set_step step w =
     (case flag_write w of
        WriteOk \<Rightarrow> ([SetStep step], Inr (), w\<lparr>flag_file := Content (str_int step)\<rparr>)
      | OpenFails \<Rightarrow> ([SetStep step, Print MsgStepSaveError], Inr (), w)
      | WriteFails \<Rightarrow>
          ([SetStep step, Print MsgStepSaveError], Inr (), w\<lparr>flag_file := Content []\<rparr>))"


section \<open>Helpers of the stages\<close>

definition append_to_file :: "string \<Rightarrow> unit prog" where
  "append_to_file path = emit (Append path)"

definition sleep :: "nat \<Rightarrow> unit prog" where
  "sleep n = emit (Sleep n)"

definition get_username :: "world \<Rightarrow> string option" where
  "get_username w =
     (case env_sudo_user w of
        Some u \<Rightarrow> if u \<noteq> [] then Some u else env_user w
      | None \<Rightarrow> env_user w)"

text \<open>
  \<open>get_network_address\<close> and \<open>get_server_ip\<close> launch \<open>hostname -I\<close> and catch every
  exception. The address they return only goes into the Samba block and into messages, so
  the model keeps the launch and drops the value.
\<close>

definition get_network_address :: "unit prog" where
  "get_network_address =
     bind (emit (Probe [''hostname'', ''-I''])) (\<lambda>u. void (spawn [''hostname'', ''-I'']))"

definition get_server_ip :: "unit prog" where
  "get_server_ip =
     bind (emit (Probe [''hostname'', ''-I''])) (\<lambda>u. void (spawn [''hostname'', ''-I'']))"

definition get_uuid :: "string \<Rightarrow> string option prog" where
  "get_uuid device =
     bind (emit (Probe [''blkid'', ''-s'', ''UUID'', ''-o'', ''value'', device])) (\<lambda>u.
     bind (spawn [''blkid'', ''-s'', ''UUID'', ''-o'', ''value'', device]) (\<lambda>oc.
       case subprocess_run True oc of
         Inr result \<Rightarrow> ret (Some (strip (stdout result)))
       | Inl e \<Rightarrow> bind (print MsgUuidWarning) (\<lambda>u. ret None)))"

definition setup_cron_jobs :: "unit prog" where
  "setup_cron_jobs = append_to_file ''/etc/crontab''"

definition setup_clamav :: "unit prog" where
  "setup_clamav =
     bind (run_safe [''systemctl'', ''stop'', ''clamav-freshclam''] 60) (\<lambda>r.
     bind (run_safe [''mkdir'', ''-p'', ''/var/log/clamav''] 60) (\<lambda>r.
     bind (run_safe [''touch'', ''/var/log/clamav/freshclam.log''] 60) (\<lambda>r.
     bind (run_safe [''chown'', ''clamav:clamav'', ''/var/log/clamav/freshclam.log''] 60) (\<lambda>r.
     bind (run_safe [''chmod'', ''644'', ''/var/log/clamav/freshclam.log''] 60) (\<lambda>r.
     bind (run_safe [''pgrep'', ''freshclam''] 60) (\<lambda>result.
     bind (case result of
             Some res \<Rightarrow>
               if returncode res = 0
               then bind (run_safe [''pkill'', ''freshclam''] 60) (\<lambda>r. sleep 2)
               else ret ()
           | None \<Rightarrow> ret ()) (\<lambda>u.
     bind (run_safe [''freshclam''] 600) (\<lambda>result.
     bind (run_safe [''systemctl'', ''start'', ''clamav-freshclam''] 60) (\<lambda>r.
     void (run_safe [''systemctl'', ''enable'', ''clamav-freshclam''] 60))))))))))"


section \<open>StageController\<close>

text \<open>
  The branches of the \<open>if\<close>/\<open>elif\<close> chain of \<open>setup()\<close>, one definition per stage,
  in the order of the source; \<open>setup_py\<close> is \<open>setup()\<close> itself. \<open>username\<close> and
  \<open>mount_point\<close> are the locals that it computes before the chain.
\<close>

definition stage_1 :: "unit prog" where
  "stage_1 =
     bind (seq
       [print (MsgStage 1),
        void (run [''apt-get'', ''update''] 300),
        void (run [''apt-get'', ''install'', ''-y'', ''vim''] 300),
        bind (ask path_exists) (\<lambda>ex.
          if ex ''/boot/firmware/config.txt''
          then append_to_file ''/boot/firmware/config.txt''
          else ret ())]) (\<lambda>u.
     bind (set_step 2) (\<lambda>u.
     void (run [''reboot''] 300)))"

definition stage_2 :: "config \<Rightarrow> unit prog" where
  "stage_2 cfg =
     bind (seq
       [print (MsgStage 2),
        validate_devices cfg,
        void (run [''apt-get'', ''install'', ''-y'', ''mdadm'', ''smartmontools'', ''samba'',
                   ''ufw'', ''clamav''] 300)]) (\<lambda>u.
     set_step 3)"

definition stage_3 :: "config \<Rightarrow> unit prog" where
  "stage_3 cfg =
     bind (seq
       [print (MsgStage 3),
        confirm_action,
        seq (map (\<lambda>device. void (run [''wipefs'', ''--all'', device] 300))
                 (RAID_DEVICES cfg))]) (\<lambda>u.
     set_step 4)"

definition stage_4 :: "config \<Rightarrow> unit prog" where
  "stage_4 cfg =
     bind (seq
       [print (MsgStage 4),
        confirm_action,
        void (run ([''mdadm'', ''--create'', ''--verbose'', RAID_DEVICE_NAME cfg,
                    ''--level='' @ str_int (RAID_LEVEL cfg),
                    ''--raid-devices='' @ str_nat (length (RAID_DEVICES cfg))]
                   @ RAID_DEVICES cfg) 300),
        sleep 5]) (\<lambda>u.
     set_step 5)"

definition stage_5 :: "config \<Rightarrow> string option \<Rightarrow> string \<Rightarrow> unit prog" where
  "stage_5 cfg username mount_point =
     bind (seq
       [print (MsgStage 5),
        void (run [''mkfs.'' @ FILESYSTEM_TYPE cfg, RAID_DEVICE_NAME cfg] 300),
        void (run [''mkdir'', ''-p'', mount_point] 300),
        void (run [''mount'', RAID_DEVICE_NAME cfg, mount_point] 300),
        void (run [''chown'', fmt username @ '':'' @ fmt username, mount_point] 300),
        bind (run [''mdadm'', ''--detail'', ''--scan''] 300) (\<lambda>mdadm_detail.
          append_to_file ''/etc/mdadm/mdadm.conf''),
        void (run [''update-initramfs'', ''-u''] 300),
        bind (get_uuid (RAID_DEVICE_NAME cfg)) (\<lambda>device_uuid.
          case device_uuid of
            Some uuid \<Rightarrow>
              if uuid \<noteq> [] then append_to_file ''/etc/fstab''
              else bind (print MsgUuidWarning) (\<lambda>u. append_to_file ''/etc/fstab'')
          | None \<Rightarrow> bind (print MsgUuidWarning) (\<lambda>u. append_to_file ''/etc/fstab''))]) (\<lambda>u.
     set_step 6)"

definition stage_6 :: "unit prog" where
  "stage_6 =
     bind (seq
       [print (MsgStage 6),
        append_to_file ''/etc/samba/smb.conf'',
        void (run [''systemctl'', ''restart'', ''smbd''] 300),
        void (run [''systemctl'', ''enable'', ''smbd''] 300)]) (\<lambda>u.
     set_step 7)"

definition stage_7 :: "config \<Rightarrow> unit prog" where
  "stage_7 cfg =
     bind (seq
       [print (MsgStage 7),
        void (run [''ufw'', ''allow'', ''ssh''] 300),
        void (run [''ufw'', ''allow'', ''samba''] 300),
        void (run [''ufw'', ''allow'', str_nat (FLASK_PORT cfg) @ ''/tcp''] 300),
        void (run [''ufw'', ''--force'', ''enable''] 300),
        setup_cron_jobs,
        setup_clamav]) (\<lambda>u.
     set_step 8)"

definition setup_py :: "config \<Rightarrow> unit prog" where
  "setup_py cfg =
     bind (ask get_step) (\<lambda>step.
     bind (ask get_username) (\<lambda>username.
     bind get_network_address (\<lambda>network.
       let mount_point = ''/home/'' @ fmt username @ ''/'' @ MOUNT_POINT_BASE cfg
       in if step = 1 then stage_1
          else if step = 2 then stage_2 cfg
          else if step = 3 then stage_3 cfg
          else if step = 4 then stage_4 cfg
          else if step = 5 then stage_5 cfg username mount_point
          else if step = 6 then stage_6
          else if step = 7 then stage_7 cfg
          else if step \<ge> 8 then print MsgAllDone
          else ret ())))"


section \<open>The program\<close>

definition create_systemd_service :: "unit prog" where
  "create_systemd_service =
     bind (ask script_path) (\<lambda>script.
     seq
       [void (run [''mkdir'', ''-p'', ''/opt/nas-dashboard''] 300),
        void (run [''cp'', script, ''/opt/nas-dashboard/nas-dashboard.py''] 300),
        void (run [''chmod'', ''755'', ''/opt/nas-dashboard/nas-dashboard.py''] 300),
        void (run [''chown'', ''root:root'', ''/opt/nas-dashboard/nas-dashboard.py''] 300),
        void (run_safe [''touch'', ''/var/log/nas-dashboard.log''] 60),
        void (run_safe [''chmod'', ''666'', ''/var/log/nas-dashboard.log''] 60),
        emit (WriteFile ''/etc/systemd/system/nas-dashboard.service''),
        bind (ask unit_file_writable) (\<lambda>ok. if ok then ret () else abort (Raised OSError)),
        void (run [''systemctl'', ''daemon-reload''] 300),
        void (run [''systemctl'', ''enable'', ''nas-dashboard.service''] 300)])"

definition show_management_commands :: "unit prog" where
  "show_management_commands = bind get_server_ip (\<lambda>u. print MsgManagement)"

text \<open>
  The \<open>__main__\<close> block for a normal invocation (without \<open>--dashboard-only\<close>, which only
  starts the status page).
\<close>

definition main :: "config \<Rightarrow> unit prog" where
  "main cfg =
     bind check_root (\<lambda>u.
     bind (ask get_step) (\<lambda>step.
     bind (if step = 1 then validate_config cfg else ret ()) (\<lambda>u.
     bind (setup_py cfg) (\<lambda>u.
     bind (ask get_step) (\<lambda>step.
       if step \<ge> 8
       then seq
         [create_systemd_service,
          show_management_commands,
          void (run [''systemctl'', ''start'', ''nas-dashboard''] 300),
          print MsgInstallComplete]
       else ret ())))))"


section \<open>Properties of traces and sample hosts\<close>

text \<open>
  \<open>gated t\<close>: reading the trace from its start, an affirmative reply to the confirmation
  prompt comes before the first mutating event (or there is no mutating event at all).
\<close>

fun affirmed :: "event \<Rightarrow> bool" where
  "affirmed (Input (Some s)) = (lower s = ''yes'')"
| "affirmed e = False"

fun gated :: "event list \<Rightarrow> bool" where
  "gated [] = True"
| "gated (e # es) = (if mutating e then False else if affirmed e then True else gated es)"

text \<open>
  A host on which every command succeeds with empty output, run by root through sudo,
  whose checkpoint file is \<open>f\<close> and whose operator answers \<open>r\<close>.
\<close>

definition host :: "file_state \<Rightarrow> string \<Rightarrow> world" where
  "host f r =
     \<lparr>flag_file = f,
      flag_write = WriteOk,
      outcomes = (\<lambda>n argv. Exited 0 [] []),
      launched = 0,
      stdin_line = Some r,
      path_exists = (\<lambda>p. True),
      euid = 0,
      env_sudo_user = Some ''pi'',
      env_user = Some ''root'',
      script_path = ''/home/pi/nas.py'',
      unit_file_writable = True\<rparr>"

text \<open>
  Variants of it: a host where \<open>reboot\<close> is refused, a host where every command exits
  with an error, a host where every command hangs until its timeout, and a host whose
  checkpoint file cannot be opened for writing.
\<close>

definition reboot_refused :: world where
  "reboot_refused =
     (host Absent ''yes'')
       \<lparr>outcomes := (\<lambda>n argv. if argv = [''reboot'']
                                then Exited 1 [] ''Failed to talk to init daemon.''
                                else Exited 0 [] [])\<rparr>"

definition broken_host :: "file_state \<Rightarrow> world" where
  "broken_host f =
     (host f ''yes'')\<lparr>outcomes := (\<lambda>n argv. Exited 2 ''partial output'' ''error text'')\<rparr>"

definition hung_host :: "file_state \<Rightarrow> world" where
  "hung_host f =
     (host f ''yes'')\<lparr>outcomes := (\<lambda>n argv. TimedOut ''partial output'' ''error text'')\<rparr>"

definition readonly_host :: "file_state \<Rightarrow> world" where
  "readonly_host f = (host f ''yes'')\<lparr>flag_write := OpenFails\<rparr>"

text \<open>
  \<open>keeps_flag m\<close>: \<open>m\<close> neither changes the checkpoint file nor how it can be written.
\<close>

definition keeps_flag :: "'a prog \<Rightarrow> bool" where
  "keeps_flag m =
     (\<forall>w. flag_file (world_of (m w)) = flag_file w
        \<and> flag_write (world_of (m w)) = flag_write w)"


section \<open>Basic facts about sequencing\<close>

lemma proj [simp]:
  "events_of (t, r, w) = t" "result_of (t, r, w) = r" "world_of (t, r, w) = w"
  by (simp_all add: events_of_def result_of_def world_of_def)

lemma bind_halted:
  "result_of (m w) = Inl h \<Longrightarrow> bind m f w = (events_of (m w), Inl h, world_of (m w))"
  by (cases "m w") (simp add: bind_def)

lemma bind_returned:
  "result_of (m w) = Inr a \<Longrightarrow>
     bind m f w = (events_of (m w) @ events_of (f a (world_of (m w))),
                   result_of (f a (world_of (m w))), world_of (f a (world_of (m w))))"
  by (cases "m w"; cases "f a (world_of (m w))") (simp add: bind_def)

lemma void_run:
  "events_of (void m w) = events_of (m w)" "world_of (void m w) = world_of (m w)"
  "(result_of (void m w) = Inl h) = (result_of (m w) = Inl h)"
  by (cases "m w"; cases "result_of (m w)"; simp add: void_def bind_def ret_def)+


section \<open>Validator: the cardinality rules\<close>

text \<open>
  C3. \<open>validate_config\<close> returns exactly when the device count satisfies the rule of the
  configured level: RAID 1 with two devices, RAID 5 with at least three, RAID 10 with an
  even number of at least four, RAID 0 with at least two. For every other level or count
  the process ends with exit code 1.
\<close>

theorem validate_config_cardinality:
  "result_of (validate_config cfg w) =
     (if (RAID_LEVEL cfg = 1 \<and> length (RAID_DEVICES cfg) = 2)
        \<or> (RAID_LEVEL cfg = 5 \<and> 3 \<le> length (RAID_DEVICES cfg))
        \<or> (RAID_LEVEL cfg = 10 \<and> 4 \<le> length (RAID_DEVICES cfg)
              \<and> even (length (RAID_DEVICES cfg)))
        \<or> (RAID_LEVEL cfg = 0 \<and> 2 \<le> length (RAID_DEVICES cfg))
      then Inr () else Inl (Exit 1))"
  by (auto simp add: validate_config_def ALLOWED_RAID_LEVELS_def bind_def print_def emit_def
      sys_exit_def abort_def Let_def)

theorem validate_config_cardinality_witness:
  "result_of (validate_config shipped_config (host Absent ''yes'')) = Inr ()
   \<and> result_of (validate_config
         (shipped_config\<lparr>RAID_LEVEL := 5, RAID_DEVICES := [''/dev/sda'', ''/dev/sdb'']\<rparr>)
         (host Absent ''yes'')) = Inl (Exit 1)"
  using validate_config_cardinality [of shipped_config "host Absent ''yes''"]
    validate_config_cardinality
      [of "shipped_config\<lparr>RAID_LEVEL := 5, RAID_DEVICES := [''/dev/sda'', ''/dev/sdb'']\<rparr>"
          "host Absent ''yes''"]
  by (simp add: shipped_config_def)


section \<open>CommandRunner: fail-fast and fail-soft\<close>

text \<open>
  C8, as the code has it. \<open>run\<close> returns the result only when the command exits with 0. A
  non-zero exit and a timeout both end the process with exit code 1, so the caller never
  continues. The captured output is printed only after a non-zero exit (standard output
  and standard error, each when it is not empty); after a timeout the only diagnostic is
  the timeout message. A command that cannot be started raises an exception that \<open>run\<close>
  does not catch.
\<close>

theorem run_fatal:
  "result_of (run cmd timeout w) =
     (case outcomes w (launched w) cmd of
        Exited rc out err \<Rightarrow>
          if rc = 0 then Inr \<lparr>returncode = rc, stdout = out, stderr = err\<rparr> else Inl (Exit 1)
      | TimedOut out err \<Rightarrow> Inl (Exit 1)
      | SpawnFailed \<Rightarrow> Inl (Raised OSError))
   \<and> events_of (run cmd timeout w) =
     Print (MsgRunning cmd) # Exec cmd #
     (case outcomes w (launched w) cmd of
        Exited rc out err \<Rightarrow>
          if rc = 0 then []
          else Print MsgCommandError
            # (if out \<noteq> [] then [Print (MsgStdout (strip out))] else [])
            @ (if err \<noteq> [] then [Print (MsgStderr (strip err))] else [])
      | TimedOut out err \<Rightarrow> [Print (MsgTimeout timeout)]
      | SpawnFailed \<Rightarrow> [])"
  by (simp add: run_def bind_def print_def emit_def spawn_def subprocess_run_def ret_def
      sys_exit_def abort_def split: outcome.splits)

theorem run_fatal_witness:
  "result_of (run [''mount'', ''/dev/md0'', ''/home/pi/storage''] 300 (broken_host Absent))
     = Inl (Exit 1)
   \<and> events_of (run [''mount'', ''/dev/md0'', ''/home/pi/storage''] 300 (broken_host Absent))
     = [Print (MsgRunning [''mount'', ''/dev/md0'', ''/home/pi/storage'']),
        Exec [''mount'', ''/dev/md0'', ''/home/pi/storage''],
        Print MsgCommandError, Print (MsgStdout ''partial output''),
        Print (MsgStderr ''error text'')]"
  using run_fatal [of "[''mount'', ''/dev/md0'', ''/home/pi/storage'']" 300 "broken_host Absent"]
  by (simp add: broken_host_def host_def strip_def is_space_def)

text \<open>
  The claim as written fails on a timeout: the process ends with exit code 1, but nothing
  of the captured output is printed.
\<close>

theorem run_timeout_counterexample:
  "result_of (run [''mkfs.ext4'', ''/dev/md0''] 300 (hung_host Absent)) = Inl (Exit 1)
   \<and> events_of (run [''mkfs.ext4'', ''/dev/md0''] 300 (hung_host Absent))
     = [Print (MsgRunning [''mkfs.ext4'', ''/dev/md0'']), Exec [''mkfs.ext4'', ''/dev/md0''],
        Print (MsgTimeout 300)]"
  by (simp add: run_def bind_def print_def emit_def spawn_def subprocess_run_def
      sys_exit_def abort_def hung_host_def host_def)

text \<open>
  C7, as the code has it. \<open>run_safe\<close> never ends the process and never raises. After a
  timeout or a failure to start the command it returns \<open>None\<close>. After a non-zero exit it
  returns the completed result, with the return code and the captured output, and leaves
  the test of the return code to its caller.
\<close>

theorem run_safe_result:
  "result_of (run_safe cmd timeout w) =
     Inr (case outcomes w (launched w) cmd of
            Exited rc out err \<Rightarrow> Some \<lparr>returncode = rc, stdout = out, stderr = err\<rparr>
          | TimedOut out err \<Rightarrow> None
          | SpawnFailed \<Rightarrow> None)"
  by (simp add: run_safe_def bind_def emit_def spawn_def subprocess_run_def ret_def
      split: outcome.splits)

theorem run_safe_result_witness:
  "result_of (run_safe [''freshclam''] 600 (hung_host Absent)) = Inr None"
  using run_safe_result [of "[''freshclam'']" 600 "hung_host Absent"]
  by (simp add: hung_host_def host_def)

text \<open>
  The claim as written fails on a non-zero exit: the result is neither absent nor empty.
\<close>

theorem run_safe_nonzero_counterexample:
  "result_of (run_safe [''smartctl'', ''-a'', ''/dev/sda''] 30 (broken_host Absent))
     = Inr (Some \<lparr>returncode = 2, stdout = ''partial output'', stderr = ''error text''\<rparr>)"
  by (simp add: run_safe_def bind_def emit_def spawn_def subprocess_run_def ret_def
      broken_host_def host_def)


section \<open>ConfirmationGate\<close>

lemma confirm_action_run:
  "confirm_action w =
     (case stdin_line w of
        None \<Rightarrow> ([Print MsgWarning, Input None], Inl (Raised EOFError), w)
      | Some s \<Rightarrow>
          if lower s = ''yes''
          then ([Print MsgWarning, Input (Some s), Print MsgContinuing], Inr (), w)
          else ([Print MsgWarning, Input (Some s), Print MsgCancelled], Inl (Exit 0), w))"
  by (simp add: confirm_action_def bind_def print_def emit_def input_def sys_exit_def abort_def
      Let_def split: option.splits)

text \<open>
  C5, as the code has it. \<open>confirm_action\<close> compares the reply in lower case: a reply
  whose lower-case form is not \<open>yes\<close> ends the process with exit code 0, a reply whose
  lower-case form is \<open>yes\<close> lets the stage go on. In both cases the host is left as it
  was and nothing mutating has happened.
\<close>

theorem confirm_action_lowercases:
  "stdin_line w = Some s \<Longrightarrow>
     result_of (confirm_action w) = (if lower s = ''yes'' then Inr () else Inl (Exit 0))
     \<and> world_of (confirm_action w) = w
     \<and> filter mutating (events_of (confirm_action w)) = []"
  by (simp add: confirm_action_run)

theorem confirm_action_lowercases_witness:
  "result_of (confirm_action (host (Content ''3'') ''no'')) = Inl (Exit 0)
   \<and> world_of (confirm_action (host (Content ''3'') ''no'')) = host (Content ''3'') ''no''
   \<and> result_of (confirm_action (host (Content ''3'') ''yes'')) = Inr ()"
  using confirm_action_lowercases [of "host (Content ''3'') ''no''" "''no''"]
    confirm_action_lowercases [of "host (Content ''3'') ''yes''" "''yes''"]
  by (simp add: host_def lower_def lower_char_def)

text \<open>
  The claim as written fails for a reply that differs from the token only in case.
\<close>

theorem confirm_action_counterexample:
  "''YES'' \<noteq> ''yes'' \<and> result_of (confirm_action (host (Content ''3'') ''YES'')) = Inr ()"
  by (simp add: confirm_action_run host_def lower_def lower_char_def)


section \<open>StepStore\<close>




lemma read_back:
  "read_flag (Content (str_int 2)) = Inr 2" "read_flag (Content (str_int 3)) = Inr 3"
  "read_flag (Content (str_int 4)) = Inr 4" "read_flag (Content (str_int 5)) = Inr 5"
  "read_flag (Content (str_int 6)) = Inr 6" "read_flag (Content (str_int 7)) = Inr 7"
  "read_flag (Content (str_int 8)) = Inr 8" "read_flag (Content []) = Inl ValueError"
  by (simp_all add: read_flag_def str_int_def str_nat.simps py_int_def strip_def is_space_def
      digit_val_def)

lemma set_step_returns: "result_of (set_step k w) = Inr ()"
  by (simp add: set_step_def split: write_mode.splits)

lemma set_step_flag:
  "flag_file (world_of (set_step k w)) =
     (case flag_write w of WriteOk \<Rightarrow> Content (str_int k) | OpenFails \<Rightarrow> flag_file w
      | WriteFails \<Rightarrow> Content [])"
  by (simp add: set_step_def split: write_mode.splits)




section \<open>What leaves the checkpoint alone\<close>

named_theorems kf

lemma kf_ret [kf]: "keeps_flag (ret a)" by (simp add: keeps_flag_def ret_def)
lemma kf_abort [kf]: "keeps_flag (abort h)" by (simp add: keeps_flag_def abort_def)
lemma kf_sys_exit [kf]: "keeps_flag (sys_exit n)" by (simp add: sys_exit_def kf_abort)
lemma kf_emit [kf]: "keeps_flag (emit e)" by (simp add: keeps_flag_def emit_def)
lemma kf_print [kf]: "keeps_flag (print m)" by (simp add: print_def kf_emit)
lemma kf_ask [kf]: "keeps_flag (ask g)" by (simp add: keeps_flag_def ask_def)
lemma kf_spawn [kf]: "keeps_flag (spawn argv)" by (simp add: keeps_flag_def spawn_def)
lemma kf_input [kf]: "keeps_flag input" by (simp add: keeps_flag_def input_def)

lemma kf_bind [kf]:
  assumes "keeps_flag m" and "\<And>a. keeps_flag (f a)"
  shows "keeps_flag (bind m f)"
  unfolding keeps_flag_def
proof
  fix w
  obtain t r w' where mw: "m w = (t, r, w')" by (cases "m w")
  have w': "flag_file w' = flag_file w \<and> flag_write w' = flag_write w"
    using assms(1) mw by (auto simp add: keeps_flag_def dest: spec [of _ w])
  show "flag_file (world_of (bind m f w)) = flag_file w \<and> flag_write (world_of (bind m f w)) = flag_write w"
  proof (cases r)
    case (Inl h)
    then show ?thesis using mw w' by (simp add: bind_def)
  next
    case (Inr a)
    obtain t2 r2 w2 where fw: "f a w' = (t2, r2, w2)" by (cases "f a w'")
    have "flag_file w2 = flag_file w' \<and> flag_write w2 = flag_write w'"
      using assms(2) [of a] fw by (auto simp add: keeps_flag_def dest: spec [of _ w'])
    then show ?thesis using mw w' Inr fw by (simp add: bind_def)
  qed
qed

lemma kf_void [kf]: "keeps_flag m \<Longrightarrow> keeps_flag (void m)"
  by (simp add: void_def kf)

lemma kf_if [kf]: "keeps_flag a \<Longrightarrow> keeps_flag b \<Longrightarrow> keeps_flag (if c then a else b)"
  by simp

lemma kf_seq [kf]: "(\<And>m. m \<in> set ms \<Longrightarrow> keeps_flag m) \<Longrightarrow> keeps_flag (seq ms)"
  by (induction ms) (simp_all add: kf)

lemma kf_run [kf]: "keeps_flag (run cmd timeout)"
  unfolding run_def
  by (intro kf) (auto split: sum.splits pyexc.splits intro!: kf)

lemma kf_run_safe [kf]: "keeps_flag (run_safe cmd timeout)"
  unfolding run_safe_def
  by (intro kf) (auto split: sum.splits pyexc.splits intro!: kf)

lemma kf_confirm_action [kf]: "keeps_flag confirm_action"
  unfolding confirm_action_def Let_def by (intro kf)

lemma kf_validate_devices [kf]: "keeps_flag (validate_devices cfg)"
  unfolding validate_devices_def Let_def
  by (intro kf) (auto split: sum.splits intro!: kf)

lemma kf_validate_config [kf]: "keeps_flag (validate_config cfg)"
  unfolding validate_config_def Let_def by (intro kf)

lemma kf_check_root [kf]: "keeps_flag check_root"
  unfolding check_root_def by (intro kf)

lemma kf_append_to_file [kf]: "keeps_flag (append_to_file p)"
  by (simp add: append_to_file_def kf)

lemma kf_sleep [kf]: "keeps_flag (sleep n)"
  by (simp add: sleep_def kf)

lemma kf_get_network_address [kf]: "keeps_flag get_network_address"
  unfolding get_network_address_def by (intro kf)

lemma kf_get_server_ip [kf]: "keeps_flag get_server_ip"
  unfolding get_server_ip_def by (intro kf)

lemma kf_get_uuid [kf]: "keeps_flag (get_uuid d)"
  unfolding get_uuid_def by (intro kf) (auto split: sum.splits intro!: kf)

lemma kf_setup_cron_jobs [kf]: "keeps_flag setup_cron_jobs"
  by (simp add: setup_cron_jobs_def kf)

lemma kf_setup_clamav [kf]: "keeps_flag setup_clamav"
  unfolding setup_clamav_def by (intro kf) (auto split: option.splits intro!: kf)

lemma kf_create_systemd_service [kf]: "keeps_flag create_systemd_service"
  unfolding create_systemd_service_def by (intro kf) (auto intro!: kf)

lemma kf_show_management_commands [kf]: "keeps_flag show_management_commands"
  unfolding show_management_commands_def by (intro kf)

lemma keeps_flagD:
  "keeps_flag m \<Longrightarrow> flag_file (world_of (m w)) = flag_file w"
  "keeps_flag m \<Longrightarrow> flag_write (world_of (m w)) = flag_write w"
  by (simp_all add: keeps_flag_def)

text \<open>A stage whose last statement is the checkpoint write.\<close>

lemma commit_last_halted:
  assumes "keeps_flag body" and "result_of (bind body (\<lambda>u. set_step k) w) = Inl h"
  shows "flag_file (world_of (bind body (\<lambda>u. set_step k) w)) = flag_file w"
proof (cases "result_of (body w)")
  case (Inl h')
  then show ?thesis using assms(1) by (simp add: bind_halted keeps_flagD)
next
  case (Inr a)
  then show ?thesis using assms(2) by (simp add: bind_returned set_step_returns)
qed

lemma commit_last_returned:
  assumes "keeps_flag body" and "result_of (bind body (\<lambda>u. set_step k) w) = Inr ()"
  shows "flag_file (world_of (bind body (\<lambda>u. set_step k) w)) =
     (case flag_write w of WriteOk \<Rightarrow> Content (str_int k) | OpenFails \<Rightarrow> flag_file w
      | WriteFails \<Rightarrow> Content [])"
proof (cases "result_of (body w)")
  case (Inl h')
  then show ?thesis using assms(2) by (simp add: bind_halted)
next
  case (Inr a)
  then show ?thesis using assms(1)
    by (simp add: bind_returned set_step_flag keeps_flagD split: write_mode.splits)
qed

text \<open>Stage 1: the checkpoint write is followed by one more command.\<close>

lemma run_exec_event: "Exec cmd \<in> set (events_of (run cmd t w))"
  by (simp add: run_def bind_def print_def emit_def spawn_def split: prod.splits sum.splits)

lemma reboot_last_halted:
  assumes kf: "keeps_flag body"
    and st: "st = bind body (\<lambda>u. bind (set_step k) (\<lambda>u. void (run cmd t)))"
    and halted: "result_of (st w) = Inl h"
    and unreached: "Exec cmd \<notin> set (events_of (st w))"
  shows "flag_file (world_of (st w)) = flag_file w"
proof (cases "result_of (body w)")
  case (Inl h')
  then show ?thesis using kf st by (simp add: bind_halted keeps_flagD)
next
  case (Inr a)
  have "Exec cmd \<in> set (events_of (st w))"
    using Inr st run_exec_event [of cmd t "world_of (set_step k (world_of (body w)))"]
    by (simp add: bind_returned set_step_returns void_run)
  then show ?thesis using unreached by simp
qed

lemma reboot_last_returned:
  assumes kf: "keeps_flag body"
    and st: "st = bind body (\<lambda>u. bind (set_step k) (\<lambda>u. void (run cmd t)))"
    and returned: "result_of (st w) = Inr ()"
  shows "flag_file (world_of (st w)) =
     (case flag_write w of WriteOk \<Rightarrow> Content (str_int k) | OpenFails \<Rightarrow> flag_file w
      | WriteFails \<Rightarrow> Content [])"
proof (cases "result_of (body w)")
  case (Inl h')
  then show ?thesis using returned st by (simp add: bind_halted)
next
  case (Inr a)
  then show ?thesis using kf st
    by (simp add: bind_returned set_step_returns void_run keeps_flagD [OF kf_run]
        set_step_flag keeps_flagD split: write_mode.splits)
qed


section \<open>The state machine\<close>

lemma get_network_address_run:
  "get_network_address w =
     ([Probe [''hostname'', ''-I'']], Inr (), w\<lparr>launched := Suc (launched w)\<rparr>)"
  by (simp add: get_network_address_def bind_def emit_def void_def spawn_def ret_def)

lemma after_probe:
  "events_of (bind get_network_address (\<lambda>n. st) w) =
     Probe [''hostname'', ''-I''] # events_of (st (w\<lparr>launched := Suc (launched w)\<rparr>))"
  "result_of (bind get_network_address (\<lambda>n. st) w) =
     result_of (st (w\<lparr>launched := Suc (launched w)\<rparr>))"
  "world_of (bind get_network_address (\<lambda>n. st) w) =
     world_of (st (w\<lparr>launched := Suc (launched w)\<rparr>))"
  by (cases "st (w\<lparr>launched := Suc (launched w)\<rparr>)";
      simp add: bind_def get_network_address_run)+

lemma setup_py_unfold:
  "setup_py cfg w =
     bind get_network_address (\<lambda>network.
       if get_step w = 1 then stage_1
       else if get_step w = 2 then stage_2 cfg
       else if get_step w = 3 then stage_3 cfg
       else if get_step w = 4 then stage_4 cfg
       else if get_step w = 5
         then stage_5 cfg (get_username w)
                (''/home/'' @ fmt (get_username w) @ ''/'' @ MOUNT_POINT_BASE cfg)
       else if get_step w = 6 then stage_6
       else if get_step w = 7 then stage_7 cfg
       else if get_step w \<ge> 8 then print MsgAllDone
       else ret ()) w"
  by (simp add: setup_py_def bind_def ask_def Let_def cong: if_cong)

lemma stage_2_shape: "\<exists>body :: unit prog. keeps_flag body \<and> stage_2 cfg = bind body (\<lambda>u. set_step 3)"
  unfolding stage_2_def by (rule exI, rule conjI [rotated], rule refl) (auto intro!: kf)

lemma stage_3_shape: "\<exists>body :: unit prog. keeps_flag body \<and> stage_3 cfg = bind body (\<lambda>u. set_step 4)"
  unfolding stage_3_def by (rule exI, rule conjI [rotated], rule refl) (auto intro!: kf)

lemma stage_4_shape: "\<exists>body :: unit prog. keeps_flag body \<and> stage_4 cfg = bind body (\<lambda>u. set_step 5)"
  unfolding stage_4_def by (rule exI, rule conjI [rotated], rule refl) (auto intro!: kf)

lemma stage_5_shape:
  "\<exists>body :: unit prog. keeps_flag body \<and> stage_5 cfg un mp = bind body (\<lambda>u. set_step 6)"
  unfolding stage_5_def by (rule exI, rule conjI [rotated], rule refl) (auto intro!: kf split: option.splits)

lemma stage_6_shape: "\<exists>body :: unit prog. keeps_flag body \<and> stage_6 = bind body (\<lambda>u. set_step 7)"
  unfolding stage_6_def by (rule exI, rule conjI [rotated], rule refl) (auto intro!: kf)

lemma stage_7_shape: "\<exists>body :: unit prog. keeps_flag body \<and> stage_7 cfg = bind body (\<lambda>u. set_step 8)"
  unfolding stage_7_def by (rule exI, rule conjI [rotated], rule refl) (auto intro!: kf)

lemma stage_1_shape:
  "\<exists>body :: unit prog. keeps_flag body \<and>
     stage_1 = bind body (\<lambda>u. bind (set_step 2) (\<lambda>u. void (run [''reboot''] 300)))"
  unfolding stage_1_def by (rule exI, rule conjI [rotated], rule refl) (auto intro!: kf)

text \<open>
  C1, as the code has it. Whenever \<open>setup()\<close> ends the process early (a required command
  failed or timed out, a device was missing, the operator declined) and the \<open>reboot\<close>
  command of stage 1 has not been launched, the checkpoint file is what it was before, so
  the next invocation reads the same ordinal. Stages 2 to 7 write the checkpoint as their
  last statement. Stage 1 writes it before its last command, \<open>reboot\<close>, because a reboot
  that succeeds ends the process.
\<close>

theorem setup_halt_keeps_checkpoint:
  assumes halted: "result_of (setup_py cfg w) = Inl h"
    and unreached: "Exec [''reboot''] \<notin> set (events_of (setup_py cfg w))"
  shows "flag_file (world_of (setup_py cfg w)) = flag_file w
         \<and> get_step (world_of (setup_py cfg w)) = get_step w"
proof -
  let ?w0 = "w\<lparr>launched := Suc (launched w)\<rparr>"
  have commit: "flag_file (world_of (st ?w0)) = flag_file w"
    if "\<exists>body :: unit prog. keeps_flag body \<and> st = bind body (\<lambda>u. set_step k)"
      and "result_of (st ?w0) = Inl h" for st k
    using that commit_last_halted [of _ k ?w0 h] by auto
  consider "get_step w = 1" | "get_step w = 2" | "get_step w = 3" | "get_step w = 4"
    | "get_step w = 5" | "get_step w = 6" | "get_step w = 7" | "get_step w \<ge> 8"
    | "get_step w \<le> 0"
    by linarith
  then have "flag_file (world_of (setup_py cfg w)) = flag_file w"
  proof cases
    case 1
    obtain body :: "unit prog" where b: "keeps_flag body"
        "stage_1 = bind body (\<lambda>u. bind (set_step 2) (\<lambda>u. void (run [''reboot''] 300)))"
      using stage_1_shape by blast
    have "flag_file (world_of (stage_1 ?w0)) = flag_file ?w0"
      using halted unreached 1
      by (intro reboot_last_halted [OF b, of ?w0 h]) (simp_all add: setup_py_unfold after_probe)
    then show ?thesis using 1 by (simp add: setup_py_unfold after_probe)
  next
    case 2
    then show ?thesis using halted commit [OF stage_2_shape [of cfg]]
      by (simp add: setup_py_unfold after_probe)
  next
    case 3
    then show ?thesis using halted commit [OF stage_3_shape [of cfg]]
      by (simp add: setup_py_unfold after_probe)
  next
    case 4
    then show ?thesis using halted commit [OF stage_4_shape [of cfg]]
      by (simp add: setup_py_unfold after_probe)
  next
    case 5
    then show ?thesis using halted commit [OF stage_5_shape [of cfg]]
      by (simp add: setup_py_unfold after_probe)
  next
    case 6
    then show ?thesis using halted commit [OF stage_6_shape]
      by (simp add: setup_py_unfold after_probe)
  next
    case 7
    then show ?thesis using halted commit [OF stage_7_shape [of cfg]]
      by (simp add: setup_py_unfold after_probe)
  next
    case 8
    then show ?thesis
      by (simp add: setup_py_unfold bind_def get_network_address_run print_def emit_def)
  next
    case 9
    then show ?thesis
      by (simp add: setup_py_unfold bind_def get_network_address_run ret_def)
  qed
  then show ?thesis by (simp add: get_step_def)
qed

theorem setup_halt_keeps_checkpoint_witness:
  "result_of (setup_py shipped_config (broken_host (Content ''2''))) = Inl (Exit 1)
   \<and> get_step (broken_host (Content ''2'')) = 2
   \<and> get_step (world_of (setup_py shipped_config (broken_host (Content ''2'')))) = 2"
proof -
  have h: "result_of (setup_py shipped_config (broken_host (Content ''2''))) = Inl (Exit 1)"
    by code_simp
  have u: "Exec [''reboot'']
      \<notin> set (events_of (setup_py shipped_config (broken_host (Content ''2''))))"
    by code_simp
  have g: "get_step (broken_host (Content ''2'')) = 2"
    by code_simp
  show ?thesis using setup_halt_keeps_checkpoint [OF h u] h g by simp
qed

text \<open>
  The claim as written fails in stage 1: when \<open>reboot\<close> exits with an error the process
  ends with exit code 1 and the checkpoint has already moved from 1 to 2.
\<close>

theorem failed_reboot_counterexample:
  "get_step reboot_refused = 1
   \<and> result_of (setup_py shipped_config reboot_refused) = Inl (Exit 1)
   \<and> get_step (world_of (setup_py shipped_config reboot_refused)) = 2"
  by code_simp

text \<open>
  C2, as the code has it. When a stage (ordinal 1 to 7) runs to its end, the checkpoint
  read afterwards is the ordinal before plus 1, provided the checkpoint write succeeded.
  \<open>set_step\<close> reports a failed write and goes on, so the stage still completes: the
  ordinal stays what it was when the file could not be opened, and reads as 1 when the
  write failed after the file had been truncated. The ordinal never moves by more than 1.
\<close>

theorem setup_success_advances:
  assumes lo: "1 \<le> get_step w" and hi: "get_step w \<le> 7"
    and returned: "result_of (setup_py cfg w) = Inr ()"
  shows "get_step (world_of (setup_py cfg w)) =
     (case flag_write w of
        WriteOk \<Rightarrow> get_step w + 1
      | OpenFails \<Rightarrow> get_step w
      | WriteFails \<Rightarrow> 1)"
proof -
  let ?w0 = "w\<lparr>launched := Suc (launched w)\<rparr>"
  let ?after = "\<lambda>k. case flag_write w of WriteOk \<Rightarrow> Content (str_int k)
      | OpenFails \<Rightarrow> flag_file w | WriteFails \<Rightarrow> Content []"
  have commit: "flag_file (world_of (st ?w0)) = ?after k"
    if "\<exists>body :: unit prog. keeps_flag body \<and> st = bind body (\<lambda>u. set_step k)"
      and "result_of (st ?w0) = Inr ()" for st k
    using that commit_last_returned [of _ k ?w0] by (auto split: write_mode.splits)
  have fin: "get_step (world_of (setup_py cfg w)) =
      (case flag_write w of WriteOk \<Rightarrow> get_step w + 1 | OpenFails \<Rightarrow> get_step w
       | WriteFails \<Rightarrow> 1)"
    if "flag_file (world_of (setup_py cfg w)) = ?after (get_step w + 1)"
  proof -
    consider "get_step w = 1" | "get_step w = 2" | "get_step w = 3" | "get_step w = 4"
      | "get_step w = 5" | "get_step w = 6" | "get_step w = 7"
      using lo hi by linarith
    then show ?thesis
      using that by cases (simp_all add: get_step_def [of "world_of x" for x] read_back
          split: write_mode.splits, simp_all add: get_step_def)
  qed
  consider "get_step w = 1" | "get_step w = 2" | "get_step w = 3" | "get_step w = 4"
    | "get_step w = 5" | "get_step w = 6" | "get_step w = 7"
    using lo hi by linarith
  then have "flag_file (world_of (setup_py cfg w)) = ?after (get_step w + 1)"
  proof cases
    case 1
    obtain body :: "unit prog" where b: "keeps_flag body"
        "stage_1 = bind body (\<lambda>u. bind (set_step 2) (\<lambda>u. void (run [''reboot''] 300)))"
      using stage_1_shape by blast
    have "flag_file (world_of (stage_1 ?w0)) = ?after 2"
      using returned 1 reboot_last_returned [OF b, of ?w0]
      by (simp add: setup_py_unfold after_probe split: write_mode.splits)
    then show ?thesis using 1
      by (simp add: setup_py_unfold after_probe split: write_mode.splits)
  next
    case 2
    then show ?thesis using returned commit [OF stage_2_shape [of cfg]]
      by (simp add: setup_py_unfold after_probe split: write_mode.splits)
  next
    case 3
    then show ?thesis using returned commit [OF stage_3_shape [of cfg]]
      by (simp add: setup_py_unfold after_probe split: write_mode.splits)
  next
    case 4
    then show ?thesis using returned commit [OF stage_4_shape [of cfg]]
      by (simp add: setup_py_unfold after_probe split: write_mode.splits)
  next
    case 5
    then show ?thesis using returned commit [OF stage_5_shape [of cfg]]
      by (simp add: setup_py_unfold after_probe split: write_mode.splits)
  next
    case 6
    then show ?thesis using returned commit [OF stage_6_shape]
      by (simp add: setup_py_unfold after_probe split: write_mode.splits)
  next
    case 7
    then show ?thesis using returned commit [OF stage_7_shape [of cfg]]
      by (simp add: setup_py_unfold after_probe split: write_mode.splits)
  qed
  then show ?thesis by (rule fin)
qed

theorem setup_success_advances_witness:
  "get_step (host (Content ''4'') ''Yes'') = 4
   \<and> result_of (setup_py shipped_config (host (Content ''4'') ''Yes'')) = Inr ()
   \<and> get_step (world_of (setup_py shipped_config (host (Content ''4'') ''Yes''))) = 5"
proof -
  have g: "get_step (host (Content ''4'') ''Yes'') = 4"
    by code_simp
  have r: "result_of (setup_py shipped_config (host (Content ''4'') ''Yes'')) = Inr ()"
    by code_simp
  have m: "flag_write (host (Content ''4'') ''Yes'') = WriteOk"
    by (simp add: host_def)
  show ?thesis
    using setup_success_advances [of "host (Content ''4'') ''Yes''" shipped_config] g r m
    by simp
qed

text \<open>
  The claim as written fails when the checkpoint file cannot be written: stage 2
  completes and the ordinal read afterwards is still 2.
\<close>

theorem unwritable_checkpoint_counterexample:
  "get_step (readonly_host (Content ''2'')) = 2
   \<and> result_of (setup_py shipped_config (readonly_host (Content ''2''))) = Inr ()
   \<and> get_step (world_of (setup_py shipped_config (readonly_host (Content ''2'')))) = 2"
  by code_simp



lemma terminal_setup:
  "8 \<le> get_step w \<Longrightarrow> setup_py cfg w =
     ([Probe [''hostname'', ''-I''], Print MsgAllDone], Inr (),
      w\<lparr>launched := Suc (launched w)\<rparr>)"
  by (simp add: setup_py_unfold bind_def get_network_address_run print_def emit_def)

lemma kf_after_setup:
  "keeps_flag (seq [create_systemd_service, show_management_commands,
      void (run [''systemctl'', ''start'', ''nas-dashboard''] 300), print MsgInstallComplete])"
  by (auto intro!: kf)

lemma check_root_run:
  "check_root w =
     (if euid w \<noteq> 0 then ([Print MsgNeedRoot], Inl (Exit 1), w) else ([], Inr (), w))"
  by (simp add: check_root_def bind_def ask_def print_def emit_def sys_exit_def abort_def
      ret_def)

lemma main_terminal:
  assumes "8 \<le> get_step w"
  shows "world_of (main cfg w) =
     (if euid w \<noteq> 0 then w
      else world_of (seq [create_systemd_service, show_management_commands,
             void (run [''systemctl'', ''start'', ''nas-dashboard''] 300),
             print MsgInstallComplete] (w\<lparr>launched := Suc (launched w)\<rparr>)))"
proof -
  have g0: "get_step (w\<lparr>launched := Suc (launched w)\<rparr>) = get_step w"
    by (simp add: get_step_def)
  show ?thesis using assms g0
    by (simp add: main_def bind_def check_root_run ask_def ret_def terminal_setup
        split: prod.splits sum.splits del: seq.simps)
qed

text \<open>
  C4, as the code has it. With a persisted ordinal of at least 8, \<open>setup()\<close> runs no stage:
  after its address query it only reports completion, launching no command through
  \<open>run\<close> or \<open>run_safe\<close> and writing no file. The checkpoint file stays as it was through
  the whole invocation, so the ordinal is a fixed point. The \<open>__main__\<close> block, however,
  goes on after \<open>setup()\<close>: on every such invocation it installs the dashboard service
  again (see the counterexample).
\<close>

theorem terminal_state_fixed:
  assumes "8 \<le> get_step w"
  shows "events_of (setup_py cfg w) = [Probe [''hostname'', ''-I''], Print MsgAllDone]
     \<and> result_of (setup_py cfg w) = Inr ()
     \<and> flag_file (world_of (setup_py cfg w)) = flag_file w
     \<and> flag_file (world_of (main cfg w)) = flag_file w"
  using assms keeps_flagD(1) [OF kf_after_setup, of "w\<lparr>launched := Suc (launched w)\<rparr>"]
  by (simp add: terminal_setup main_terminal del: seq.simps)

theorem terminal_state_fixed_witness:
  "events_of (setup_py shipped_config (host (Content ''8'') ''yes''))
     = [Probe [''hostname'', ''-I''], Print MsgAllDone]
   \<and> flag_file (world_of (main shipped_config (host (Content ''8'') ''yes''))) = Content ''8''"
proof -
  have g: "8 \<le> get_step (host (Content ''8'') ''yes'')"
    by code_simp
  have f: "flag_file (host (Content ''8'') ''yes'') = Content ''8''"
    by (simp add: host_def)
  show ?thesis using terminal_state_fixed [OF g, of shipped_config] f by simp
qed

text \<open>
  The claim as written fails for the invocation as a whole: with ordinal 8 the program
  executes commands and rewrites the unit file of the dashboard service.
\<close>

theorem terminal_main_counterexample:
  "get_step (host (Content ''8'') ''yes'') = 8
   \<and> Exec [''cp'', ''/home/pi/nas.py'', ''/opt/nas-dashboard/nas-dashboard.py'']
       \<in> set (events_of (main shipped_config (host (Content ''8'') ''yes'')))
   \<and> WriteFile ''/etc/systemd/system/nas-dashboard.service''
       \<in> set (events_of (main shipped_config (host (Content ''8'') ''yes'')))
   \<and> Exec [''systemctl'', ''start'', ''nas-dashboard'']
       \<in> set (events_of (main shipped_config (host (Content ''8'') ''yes'')))"
  by code_simp

lemma confirm_gates:
  "gated (events_of (bind (bind (print b) (\<lambda>u. bind confirm_action (\<lambda>u. R))) F w))"
  by (auto simp add: bind_def print_def emit_def confirm_action_run
      split: option.splits prod.splits sum.splits)

text \<open>
  C6. In the destructive stages, stage 3 (\<open>wipefs\<close>) and stage 4 (\<open>mdadm --create\<close>), every
  run is gated: reading the trace of \<open>setup()\<close> from its start, the confirmation prompt
  has been answered affirmatively before the first mutating event (a command launched
  through \<open>run\<close> or \<open>run_safe\<close>, a file written, the checkpoint written), or no mutating
  event happens at all.
\<close>

theorem destructive_stages_gated:
  "get_step w = 3 \<or> get_step w = 4 \<Longrightarrow> gated (events_of (setup_py cfg w))"
  by (auto simp add: setup_py_unfold after_probe stage_3_def stage_4_def confirm_gates)

theorem destructive_stages_gated_witness:
  "gated (events_of (setup_py shipped_config (host (Content ''3'') ''yes'')))
   \<and> Exec [''wipefs'', ''--all'', ''/dev/sda'']
       \<in> set (events_of (setup_py shipped_config (host (Content ''3'') ''yes'')))"
proof -
  have h: "get_step (host (Content ''3'') ''yes'') = 3
      \<or> get_step (host (Content ''3'') ''yes'') = 4"
    by code_simp
  have e: "Exec [''wipefs'', ''--all'', ''/dev/sda'']
       \<in> set (events_of (setup_py shipped_config (host (Content ''3'') ''yes'')))"
    by code_simp
  show ?thesis using destructive_stages_gated [OF h, of shipped_config] e by simp
qed

text \<open>
  \<open>gated\<close> is not satisfied by every stage: stage 5 creates the file system without a
  prompt.
\<close>

lemma stage_5_not_gated:
  "\<not> gated (events_of (setup_py shipped_config (host (Content ''5'') ''yes'')))"
  by code_simp

end
